theory Spec2Isabelle
  imports Complex_Main "HOL-Library.Word"
begin

unbundle bit_operations_syntax

section \<open>Bytes, struct.pack and os.urandom\<close>

text \<open>
  A Python \<open>bytes\<close> value is a list of 8-bit words. A bytes literal such as
  \<open>b"none"\<close> is written \<open>bytes_of ''none''\<close>.
\<close>

type_synonym byte = "8 word"

definition bytes_of :: "string \<Rightarrow> byte list" where
  "bytes_of s = map of_char s"

text \<open>
  \<open>struct.pack(">I", n)\<close>: four bytes, most significant first. Python raises
  \<open>struct.error\<close> for \<open>n\<close> outside \<open>0 .. 2^32 - 1\<close>; every call in the
  modelled code passes the length of a short buffer or a constant in that range.
  \<open>pack_u32_le\<close> and \<open>pack_u16_le\<close> are \<open>struct.pack("<I", n)\<close> and
  \<open>struct.pack("<H", n)\<close>.
\<close>

definition pack_u32_be :: "nat \<Rightarrow> byte list" where
  "pack_u32_be n =
     (let w = (of_nat n :: 32 word)
      in [ucast (drop_bit 24 w), ucast (drop_bit 16 w), ucast (drop_bit 8 w), ucast w])"

definition pack_u32_le :: "nat \<Rightarrow> byte list" where
  "pack_u32_le n = rev (pack_u32_be n)"

definition pack_u16_le :: "nat \<Rightarrow> byte list" where
  "pack_u16_le n =
     (let w = (of_nat n :: 16 word) in [ucast w, ucast (drop_bit 8 w)])"

text \<open>Reading a big-endian length field back (what a peer does with the first four bytes).\<close>

definition unpack_u32_be :: "byte list \<Rightarrow> nat" where
  "unpack_u32_be bs =
     (case bs of
        [a, b, c, d] \<Rightarrow> unat a * 2 ^ 24 + unat b * 2 ^ 16 + unat c * 2 ^ 8 + unat d
      | _ \<Rightarrow> 0)"

text \<open>
  \<open>os.urandom(n)\<close> draws \<open>n\<close> fresh bytes. The operating system's generator is an
  endless supply of bytes, here a function from positions to bytes; a draw takes the next
  \<open>n\<close> and leaves the rest for the next call.
\<close>

type_synonym entropy = "nat \<Rightarrow> byte"

definition os_urandom :: "nat \<Rightarrow> entropy \<Rightarrow> byte list \<times> entropy" where
  "os_urandom n s = (map s [0..<n], \<lambda>i. s (i + n))"

section \<open>SSH honeypot: packet builders\<close>

definition SSH_MSG_KEXINIT :: byte where
  "SSH_MSG_KEXINIT = 20"

text \<open>
  \<open>SSHHoneypot.build_kexinit\<close>. The name-list loop appends, for each of the ten
  entries, its length as a big-endian uint32 and then its bytes.
\<close>

definition build_kexinit :: "entropy \<Rightarrow> byte list \<times> entropy" where
  "build_kexinit s =
     (let (cookie, s1) = os_urandom 16 s;
          kex_algorithms = bytes_of ''curve25519-sha256,ecdh-sha2-nistp256'';
          host_key_algorithms = bytes_of ''ssh-ed25519,ssh-rsa'';
          encryption = bytes_of ''aes256-ctr,aes128-ctr'';
          mac = bytes_of ''hmac-sha2-256,hmac-sha1'';
          compression = bytes_of ''none'';
          languages = bytes_of '''';
          payload0 = [SSH_MSG_KEXINIT] @ cookie;
          payload1 = foldl (\<lambda>p algo. p @ pack_u32_be (length algo) @ algo) payload0
                       [kex_algorithms, host_key_algorithms, encryption, encryption,
                        mac, mac, compression, compression, languages, languages];
          payload = payload1 @ [0] @ [0, 0, 0, 0];
          packet_len = length payload + 1;
          padding_len0 = 8 - ((packet_len + 4) mod 8);
          padding_len = (if padding_len0 < 4 then padding_len0 + 8 else padding_len0);
          (padding, s2) = os_urandom padding_len s1
      in (pack_u32_be (packet_len + padding_len) @ [of_nat padding_len] @ payload @ padding,
          s2))"

text \<open>\<open>SSHHoneypot.build_auth_failure\<close> (SSH_MSG_USERAUTH_FAILURE, message id 51).\<close>

definition build_auth_failure :: "entropy \<Rightarrow> byte list \<times> entropy" where
  "build_auth_failure s =
     (let payload = [51] @ pack_u32_be 17 @ bytes_of ''password,keyboard'' @ [0];
          packet_len = length payload + 1;
          padding_len0 = 8 - ((packet_len + 4) mod 8);
          padding_len = (if padding_len0 < 4 then padding_len0 + 8 else padding_len0);
          (padding, s1) = os_urandom padding_len s
      in (pack_u32_be (packet_len + padding_len) @ [of_nat padding_len] @ payload @ padding,
          s1))"

section \<open>SSH honeypot: framing and padding\<close>

text \<open>
  The fields of a built packet as a peer reads them off the wire: the big-endian uint32
  length field, the padding-length byte after it, and the number of payload bytes left
  once the two fields and the padding are taken away.
\<close>

definition packet_length :: "byte list \<Rightarrow> nat" where
  "packet_length pkt = unpack_u32_be (take 4 pkt)"

definition padding_length :: "byte list \<Rightarrow> nat" where
  "padding_length pkt = unat (pkt ! 4)"

definition payload_length :: "byte list \<Rightarrow> nat" where
  "payload_length pkt = length pkt - 4 - 1 - padding_length pkt"

section \<open>Python text\<close>

text \<open>
  A Python \<open>str\<close> is modelled as a \<open>string\<close>, a list of characters with code
  points 0 to 255; text with a code point above 255 has no counterpart here. The tables
  below are Python's for this range.

  \<open>isspace_char\<close>: the characters \<open>str.strip()\<close>, \<open>str.split()\<close> and the
  regular-expression class \<open>\s\<close> treat as whitespace: tab to carriage return (9 to 13),
  the separators 28 to 31, the space, and the two Latin-1 ones, 0x85 and 0xA0.
\<close>

definition isspace_char :: "char \<Rightarrow> bool" where
  "isspace_char c =
     (let n = (of_char c :: nat)
      in (9 \<le> n \<and> n \<le> 13) \<or> (28 \<le> n \<and> n \<le> 32) \<or> n = 133 \<or> n = 160)"

text \<open>
  \<open>isupper_char\<close>: the characters \<open>str.lower()\<close> changes, A to Z and the Latin-1
  capitals 0xC0 to 0xDE without the multiplication sign 0xD7. The lower-case letter is
  32 further on, which for these codes is the same code with bit 5 set.
\<close>

definition isupper_char :: "char \<Rightarrow> bool" where
  "isupper_char c =
     (let n = (of_char c :: nat)
      in (65 \<le> n \<and> n \<le> 90) \<or> (192 \<le> n \<and> n \<le> 222 \<and> n \<noteq> 215))"

definition lower_char :: "char \<Rightarrow> char" where
  "lower_char c =
     (if isupper_char c
      then Char (digit0 c) (digit1 c) (digit2 c) (digit3 c) (digit4 c) True (digit6 c) (digit7 c)
      else c)"

definition py_lower :: "string \<Rightarrow> string" where
  "py_lower s = map lower_char s"

definition py_lstrip :: "string \<Rightarrow> string" where
  "py_lstrip s = dropWhile isspace_char s"

definition py_rstrip :: "string \<Rightarrow> string" where
  "py_rstrip s = rev (dropWhile isspace_char (rev s))"

definition py_strip :: "string \<Rightarrow> string" where
  "py_strip s = py_rstrip (py_lstrip s)"

definition startswith :: "string \<Rightarrow> string \<Rightarrow> bool" where
  "startswith s p = (take (length p) s = p)"

section \<open>MySQL honeypot: responses to a query\<close>

text \<open>\<open>MySQLHoneypot.build_ok_packet\<close>.\<close>

definition build_ok_packet :: "byte list" where
  "build_ok_packet =
     (let packet = [0x00] @ [0] @ [0] @ pack_u16_le 0x0002 @ pack_u16_le 0;
          header = take 3 (pack_u32_le (length packet)) @ [0x02]
      in header @ packet)"

text \<open>\<open>MySQLHoneypot.build_empty_result\<close>.\<close>

definition build_empty_result :: "byte list" where
  "build_empty_result =
     (let col_count = [0x01, 0x00, 0x00, 0x01, 0x01];
          result1 = col_count;
          col_def = [0x03] @ bytes_of ''def'' @ [0] @ [0] @ [0]
                    @ [0x06] @ bytes_of ''result'' @ [0] @ [0x0c]
                    @ pack_u16_le 33 @ pack_u32_le 255 @ [0xfd] @ pack_u16_le 0 @ [0]
                    @ [0x00, 0x00];
          col_header = take 3 (pack_u32_le (length col_def)) @ [0x02];
          result2 = result1 @ (col_header @ col_def);
          eof = [0x05, 0x00, 0x00, 0x03, 0xfe, 0x00, 0x00, 0x02, 0x00];
          result3 = result2 @ eof;
          eof2 = [0x05, 0x00, 0x00, 0x04, 0xfe, 0x00, 0x00, 0x02, 0x00]
      in result3 @ eof2)"

text \<open>\<open>MySQLHoneypot.build_query_response\<close>.\<close>

definition build_query_response :: "string \<Rightarrow> byte list" where
  "build_query_response query =
     (let query_lower = py_strip (py_lower query)
      in if startswith query_lower ''select'' then build_empty_result else build_ok_packet)"

text \<open>
  The wire format the responses are read against, in the words of the protocol
  description: a packet is a little-endian uint24 payload length, a sequence id and the
  payload; a column definition carries length-prefixed strings (catalog, schema, table,
  original table, name, original name), the length of the fixed fields (12), the
  character set (2 bytes), the column length (4 bytes), the type, the flags (2 bytes), the
  decimals and two filler bytes; an EOF payload is 0xfe, the warning count and the status
  flags; the column-count payload is the count itself.
\<close>

definition spec_packet :: "nat \<Rightarrow> byte list \<Rightarrow> byte list" where
  "spec_packet seq payload =
     [of_nat (length payload mod 256), of_nat (length payload div 256 mod 256),
      of_nat (length payload div 65536 mod 256), of_nat seq] @ payload"

definition spec_lenenc_str :: "string \<Rightarrow> byte list" where
  "spec_lenenc_str s = of_nat (length s) # bytes_of s"

definition MYSQL_TYPE_VAR_STRING :: byte where
  "MYSQL_TYPE_VAR_STRING = 0xfd"

definition spec_column_definition :: "string \<Rightarrow> byte \<Rightarrow> byte list" where
  "spec_column_definition name column_type =
     spec_lenenc_str ''def'' @ spec_lenenc_str [] @ spec_lenenc_str [] @ spec_lenenc_str []
     @ spec_lenenc_str name @ spec_lenenc_str []
     @ [0x0c] @ [33, 0] @ [255, 0, 0, 0] @ [column_type] @ [0, 0] @ [0] @ [0, 0]"

definition spec_column_count :: "nat \<Rightarrow> byte list" where
  "spec_column_count n = [of_nat n]"

definition spec_eof_payload :: "byte list" where
  "spec_eof_payload = [0xfe, 0, 0, 2, 0]"

definition spec_ok_payload :: "byte list" where
  "spec_ok_payload = [0, 0, 0, 2, 0, 0, 0]"

text \<open>
  The query as the protocol description words the test: lower-cased and trimmed of
  leading whitespace only.
\<close>

definition spec_is_select :: "string \<Rightarrow> bool" where
  "spec_is_select query = startswith (py_lstrip (py_lower query)) ''select''"

text \<open>
  \<open>sub in s\<close> for two strings, and \<open>s.split(sep)\<close> for a separator that is not
  empty (Python raises ValueError for an empty one; every call in the modelled code passes
  a literal): the text is cut at each occurrence of the separator, found from the left
  without overlap, and there is always at least one piece.
\<close>

fun py_in :: "string \<Rightarrow> string \<Rightarrow> bool" where
  "py_in sub [] = (sub = [])"
| "py_in sub (c # cs) = (startswith (c # cs) sub \<or> py_in sub cs)"

fun py_split_aux :: "string \<Rightarrow> string \<Rightarrow> string \<Rightarrow> string list" where
  "py_split_aux sep acc [] = [rev acc]"
| "py_split_aux sep acc (c # cs) =
     (if sep \<noteq> [] \<and> startswith (c # cs) sep
      then rev acc # py_split_aux sep [] (drop (length sep - 1) cs)
      else py_split_aux sep (c # acc) cs)"

definition py_split :: "string \<Rightarrow> string \<Rightarrow> string list" where
  "py_split s sep = py_split_aux sep [] s"

text \<open>\<open>s.split(sep, 1)\<close>: at most one cut, at the first occurrence.\<close>

fun py_split1_aux :: "string \<Rightarrow> string \<Rightarrow> string \<Rightarrow> string list" where
  "py_split1_aux sep acc [] = [rev acc]"
| "py_split1_aux sep acc (c # cs) =
     (if sep \<noteq> [] \<and> startswith (c # cs) sep
      then [rev acc, drop (length sep - 1) cs]
      else py_split1_aux sep (c # acc) cs)"

definition py_split1 :: "string \<Rightarrow> string \<Rightarrow> string list" where
  "py_split1 s sep = py_split1_aux sep [] s"

text \<open>\<open>sep.join(parts)\<close>.\<close>

fun py_join :: "string \<Rightarrow> string list \<Rightarrow> string" where
  "py_join sep [] = []"
| "py_join sep [x] = x"
| "py_join sep (x # y # ys) = x @ sep @ py_join sep (y # ys)"

text \<open>
  \<open>int(s)\<close> for a string: whitespace at both ends is dropped, one sign is allowed,
  then decimal digits, where single underscores may stand between digits; anything else
  raises ValueError (\<open>None\<close>). In the range of this model the decimal digits are 0 to 9.
  The whitespace that \<open>int\<close> drops is not all that \<open>str.strip()\<close> drops: the
  separators 28 to 31 are kept, and a string that holds one of them raises ValueError.
  \<open>max_digits\<close> is the interpreter's limit on the number of digits
  (\<open>sys.get_int_max_str_digits()\<close>, 4300 unless configured, 0 for no limit, absent in
  interpreters before the limit was introduced, which is 0 here): more digits raise
  ValueError as well.
\<close>

definition isdigit_char :: "char \<Rightarrow> bool" where
  "isdigit_char c = (let n = (of_char c :: nat) in 48 \<le> n \<and> n \<le> 57)"




section \<open>Decoy e-commerce API\<close>

text \<open>
  The values the handlers work on: what \<open>json.loads\<close> returns and \<open>json.dumps\<close>
  prints. A dict is its list of items in insertion order. A float is written as the real
  number its literal denotes.
\<close>

datatype pyval =
    PyNone
  | PyBool bool
  | PyInt int
  | PyFloat real
  | PyStr string
  | PyList "pyval list"
  | PyDict "(string \<times> pyval) list"







definition dict_set :: "(string \<times> 'v) list \<Rightarrow> string \<Rightarrow> 'v \<Rightarrow> (string \<times> 'v) list" where
  "dict_set kvs key v =
     (if key \<in> fst ` set kvs
      then map (\<lambda>(k, old). if k = key then (k, v) else (k, old)) kvs
      else kvs @ [(key, v)])"




text \<open>
  What a handler does: the response of \<open>send_json(data, status)\<close>, a status and the
  object that goes out as JSON, and the records it hands to the logger, each a level and
  the object dumped. (The request line that the base class logs through \<open>log_message\<close>
  on every response is left out.)
\<close>

datatype level = DEBUG | INFO | WARNING | ERROR

record reply =
  status :: nat
  payload :: pyval

type_synonym log_record = "level \<times> pyval"











section \<open>More Python text: upper, split on whitespace, find, strip of given characters\<close>

text \<open>
  \<open>str.upper()\<close> in the range of this model: a to z and the Latin-1 small letters 0xE0
  to 0xFE without the division sign 0xF7 go to the code 32 below (bit 5 cleared), and the
  sharp s (0xDF) becomes the two letters SS. The capitals of the micro sign (0xB5) and of
  y with diaeresis (0xFF) lie above 255; they are left as they are here, which changes no
  comparison with a command name, all of whose letters are ASCII.
\<close>

definition islower_char :: "char \<Rightarrow> bool" where
  "islower_char c =
     (let n = (of_char c :: nat)
      in (97 \<le> n \<and> n \<le> 122) \<or> (224 \<le> n \<and> n \<le> 254 \<and> n \<noteq> 247))"

definition upper_char :: "char \<Rightarrow> string" where
  "upper_char c =
     (if islower_char c
      then [Char (digit0 c) (digit1 c) (digit2 c) (digit3 c) (digit4 c) False (digit6 c) (digit7 c)]
      else if c = CHR 0xDF then ''SS''
      else [c])"

definition py_upper :: "string \<Rightarrow> string" where
  "py_upper s = concat (map upper_char s)"

text \<open>\<open>s.split()\<close>: the maximal runs of characters that are not whitespace.\<close>

fun py_split_ws_aux :: "string \<Rightarrow> string \<Rightarrow> string list" where
  "py_split_ws_aux acc [] = (if acc = [] then [] else [rev acc])"
| "py_split_ws_aux acc (c # cs) =
     (if isspace_char c
      then (if acc = [] then py_split_ws_aux [] cs else rev acc # py_split_ws_aux [] cs)
      else py_split_ws_aux (c # acc) cs)"

definition py_split_ws :: "string \<Rightarrow> string list" where
  "py_split_ws s = py_split_ws_aux [] s"

text \<open>
  \<open>s.find(c)\<close> for a single character: the first index, \<open>None\<close> for Python's -1.
  \<open>s.strip(chars)\<close> drops the given characters at both ends. \<open>s[i:j]\<close> for indices
  that are not negative is \<open>py_slice s i j\<close>.
\<close>

definition py_find :: "string \<Rightarrow> char \<Rightarrow> nat option" where
  "py_find s c =
     (if c \<in> set s then Some (length (takeWhile (\<lambda>x. x \<noteq> c) s)) else None)"

definition py_strip_chars :: "string \<Rightarrow> string \<Rightarrow> string" where
  "py_strip_chars s chars =
     rev (dropWhile (\<lambda>c. c \<in> set chars) (rev (dropWhile (\<lambda>c. c \<in> set chars) s)))"

definition py_slice :: "string \<Rightarrow> nat \<Rightarrow> nat \<Rightarrow> string" where
  "py_slice s i j = take (j - i) (drop i s)"

section \<open>SMTP honeypot\<close>

text \<open>
  \<open>SMTPEvent\<close>, without its timestamp (the clock is not modelled). \<open>rcpt_to\<close> is
  the session's list object itself, not a copy of it: the event holds a reference, and a
  recipient that a later \<open>RCPT\<close> appends to the list shows in the events already
  recorded. A reference is the index of the list object in \<open>smtp_lists\<close> below.
\<close>

record SMTPEvent =
  smtp_event_type :: string
  smtp_source_ip :: string
  smtp_source_port :: nat
  smtp_mail_from :: string
  smtp_rcpt_to :: nat
  smtp_subject :: string
  smtp_message_size :: nat
  smtp_session_id :: string

text \<open>
  The fields of \<open>SMTPHoneypot\<close> that a connection reads or changes, together with what
  the connection writes to its peer (\<open>sent\<close>, one entry per \<open>send_response\<close>, each
  followed by CR LF on the wire), what it logs, and the list objects that the sessions
  have created for \<open>rcpt_to\<close>, in the order of their creation.
\<close>

record SMTPHoneypot =
  max_message_size :: int
  hostname :: string
  smtp_active_connections :: int
  smtp_total_connections :: nat
  total_messages :: nat
  smtp_events :: "SMTPEvent list"
  smtp_sent :: "string list"
  smtp_log :: "log_record list"
  smtp_lists :: "string list list"

definition send_response :: "string \<Rightarrow> SMTPHoneypot \<Rightarrow> SMTPHoneypot" where
  "send_response message hp = hp\<lparr>smtp_sent := smtp_sent hp @ [message]\<rparr>"

definition smtp_logger :: "level \<Rightarrow> pyval \<Rightarrow> SMTPHoneypot \<Rightarrow> SMTPHoneypot" where
  "smtp_logger lvl entry hp = hp\<lparr>smtp_log := smtp_log hp @ [(lvl, entry)]\<rparr>"

text \<open>
  The list objects: \<open>rcpt_to = []\<close> creates one and binds the name to it,
  \<open>rcpt_to.append(rcpt)\<close> changes the object the name is bound to, and reading the
  name gives the items the object holds at that moment.
\<close>

definition new_list :: "SMTPHoneypot \<Rightarrow> nat \<times> SMTPHoneypot" where
  "new_list hp = (length (smtp_lists hp), hp\<lparr>smtp_lists := smtp_lists hp @ [[]]\<rparr>)"

definition list_append :: "nat \<Rightarrow> string \<Rightarrow> SMTPHoneypot \<Rightarrow> SMTPHoneypot" where
  "list_append r x hp = hp\<lparr>smtp_lists := (smtp_lists hp)[r := smtp_lists hp ! r @ [x]]\<rparr>"

definition list_items :: "nat \<Rightarrow> SMTPHoneypot \<Rightarrow> string list" where
  "list_items r hp = smtp_lists hp ! r"

text \<open>\<open>SMTPHoneypot.extract_address\<close> and \<open>SMTPHoneypot.extract_subject\<close>.\<close>

definition extract_address :: "string \<Rightarrow> string" where
  "extract_address line =
     (case (py_find line CHR ''<'', py_find line CHR ''>'') of
        (Some start, Some stop) \<Rightarrow> py_slice line (start + 1) stop
      | _ \<Rightarrow>
          (case py_split line '':'' of
             p0 # p1 # ps \<Rightarrow> py_strip_chars (py_strip p1) ''<>''
           | _ \<Rightarrow> []))"

fun first_subject :: "string list \<Rightarrow> string" where
  "first_subject [] = []"
| "first_subject (line # rest) =
     (if startswith (py_lower line) ''subject:'' then py_strip (drop 8 line)
      else first_subject rest)"

definition extract_subject :: "string \<Rightarrow> string" where
  "extract_subject message = first_subject (py_split message [CHR 0x0A])"

text \<open>
  What \<open>reader.readline()\<close> hands to the loop of \<open>handle_connection\<close>: a line, as
  the text that \<open>decode("utf-8", errors="ignore")\<close> makes of its bytes (before
  \<open>strip\<close>), the end of the stream (the empty bytes), or the 300 second timeout. The
  stream reader is created with \<open>limit = max_message_size\<close>, so it delivers no line
  longer than that.
\<close>

datatype smtp_read = Recv string | Closed | TimedOut

text \<open>
  The session variables of \<open>handle_connection\<close>: \<open>mail_from\<close>, \<open>rcpt_to\<close>
  (the reference to its list object), \<open>in_data\<close> and \<open>message_data\<close>.
  \<open>message_data\<close> is a list object too, but no other name is ever bound to it, so it
  is kept as its items.
\<close>

record smtp_session =
  mail_from :: string
  rcpt_to :: nat
  in_data :: bool
  message_data :: "string list"

text \<open>
  The branch \<open>if in_data\<close> of the loop body, for one stripped line: the line
  \<open>.\<close> ends the message, builds the event and answers; any other line is appended
  when the text joined so far is shorter than \<open>max_message_size\<close>.
\<close>

definition data_line ::
  "string \<times> nat \<times> string \<Rightarrow> string \<Rightarrow> smtp_session \<times> SMTPHoneypot \<Rightarrow> smtp_session \<times> SMTPHoneypot" where
  "data_line conn line sh =
     (let (client_ip, client_port, session_id) = conn; (s, hp) = sh
      in if line = ''.''
         then (let hp1 = hp\<lparr>total_messages := total_messages hp + 1\<rparr>;
                   message = py_join [CHR 0x0A] (message_data s);
                   subject = extract_subject message;
                   event = \<lparr>smtp_event_type = ''smtp_message'',
                            smtp_source_ip = client_ip,
                            smtp_source_port = client_port,
                            smtp_mail_from = mail_from s,
                            smtp_rcpt_to = rcpt_to s,
                            smtp_subject = subject,
                            smtp_message_size = length message,
                            smtp_session_id = session_id\<rparr>;
                   hp2 = hp1\<lparr>smtp_events := smtp_events hp1 @ [event]\<rparr>;
                   hp3 = smtp_logger WARNING
                           (PyDict [(''event'', PyStr ''message_received''),
                                    (''session_id'', PyStr session_id),
                                    (''mail_from'', PyStr (mail_from s)),
                                    (''rcpt_to'', PyList (map PyStr (list_items (rcpt_to s) hp2))),
                                    (''subject'', PyStr (take 100 subject)),
                                    (''size'', PyInt (int (length message)))]) hp2;
                   hp4 = send_response ''250 OK: Message queued'' hp3
               in (s\<lparr>in_data := False, message_data := []\<rparr>, hp4))
         else if int (length (py_join [CHR 0x0A] (message_data s))) < max_message_size hp
         then (s\<lparr>message_data := message_data s @ [line]\<rparr>, hp)
         else (s, hp))"

text \<open>
  The command dispatch, for one stripped line outside data mode. The result says whether
  the loop goes on (\<open>QUIT\<close> leaves it).
\<close>

definition command_line ::
  "string \<times> nat \<times> string \<Rightarrow> string \<Rightarrow> smtp_session \<times> SMTPHoneypot
     \<Rightarrow> bool \<times> smtp_session \<times> SMTPHoneypot" where
  "command_line conn line sh =
     (let (client_ip, client_port, session_id) = conn; (s, hp) = sh;
          command = (if line \<noteq> [] then (case py_split_ws (py_upper line) of
                                            w # ws \<Rightarrow> w | [] \<Rightarrow> [])
                     else [])
      in if command = ''HELO'' \<or> command = ''EHLO''
         then (True, s, send_response (''250 '' @ hostname hp) hp)
         else if command = ''MAIL''
         then (let a = extract_address line
               in (True, s\<lparr>mail_from := a\<rparr>,
                   send_response ''250 OK''
                     (smtp_logger INFO (PyDict [(''event'', PyStr ''mail_from''),
                                                (''session_id'', PyStr session_id),
                                                (''address'', PyStr a)]) hp)))
         else if command = ''RCPT''
         then (let rcpt = extract_address line
               in (True, s,
                   send_response ''250 OK''
                     (smtp_logger INFO (PyDict [(''event'', PyStr ''rcpt_to''),
                                                (''session_id'', PyStr session_id),
                                                (''address'', PyStr rcpt)])
                        (list_append (rcpt_to s) rcpt hp))))
         else if command = ''DATA''
         then (True, s\<lparr>in_data := True\<rparr>,
               send_response ''354 Start mail input; end with <CRLF>.<CRLF>'' hp)
         else if command = ''RSET''
         then (let (r, hp1) = new_list hp
               in (True, s\<lparr>mail_from := [], rcpt_to := r, message_data := []\<rparr>,
                   send_response ''250 OK'' hp1))
         else if command = ''NOOP''
         then (True, s, send_response ''250 OK'' hp)
         else if command = ''QUIT''
         then (False, s, send_response ''221 Bye'' hp)
         else if command = ''VRFY''
         then (True, s, send_response ''252 Cannot VRFY user'' hp)
         else if command = ''AUTH''
         then (True, s,
               send_response ''235 Authentication successful''
                 (smtp_logger WARNING (PyDict [(''event'', PyStr ''auth_attempt''),
                                               (''session_id'', PyStr session_id),
                                               (''command'', PyStr line)]) hp))
         else (True, s, send_response ''500 Command not recognized'' hp))"

text \<open>
  The \<open>while True\<close> loop over the lines read. It ends at the end of the stream, at a
  timeout, and after \<open>QUIT\<close>; a peer that has sent nothing more is at the end of the
  list.
\<close>

fun smtp_loop ::
  "string \<times> nat \<times> string \<Rightarrow> smtp_session \<times> SMTPHoneypot \<Rightarrow> smtp_read list
     \<Rightarrow> smtp_session \<times> SMTPHoneypot" where
  "smtp_loop conn sh [] = sh"
| "smtp_loop conn sh (Closed # rest) = sh"
| "smtp_loop conn sh (TimedOut # rest) = sh"
| "smtp_loop conn sh (Recv raw # rest) =
     (let line = py_strip raw
      in if in_data (fst sh) then smtp_loop conn (data_line conn line sh) rest
         else (case command_line conn line sh of
                 (True, sh') \<Rightarrow> smtp_loop conn sh' rest
               | (False, sh') \<Rightarrow> sh'))"

text \<open>
  \<open>SMTPHoneypot.handle_connection\<close> for one connection: the counters, the greeting,
  the loop, and the \<open>finally\<close> block. \<open>session_id\<close> is the hash the source derives
  from the peer address and the clock.
\<close>

definition smtp_handle_connection ::
  "string \<times> nat \<times> string \<Rightarrow> smtp_read list \<Rightarrow> SMTPHoneypot \<Rightarrow> SMTPHoneypot" where
  "smtp_handle_connection conn reads hp =
     (let (client_ip, client_port, session_id) = conn;
          hp1 = hp\<lparr>smtp_active_connections := smtp_active_connections hp + 1,
                    smtp_total_connections := smtp_total_connections hp + 1\<rparr>;
          hp2 = smtp_logger INFO (PyDict [(''event'', PyStr ''connection_opened''),
                                          (''session_id'', PyStr session_id),
                                          (''source_ip'', PyStr client_ip),
                                          (''protocol'', PyStr ''smtp'')]) hp1;
          (r, hp2') = new_list hp2;
          session = \<lparr>mail_from = [], rcpt_to = r, in_data = False, message_data = []\<rparr>;
          hp3 = send_response (''220 '' @ hostname hp2' @ '' ESMTP ready'') hp2';
          (s, hp4) = smtp_loop conn (session, hp3) reads;
          hp5 = hp4\<lparr>smtp_active_connections := smtp_active_connections hp4 - 1\<rparr>
      in smtp_logger INFO (PyDict [(''event'', PyStr ''connection_closed''),
                                   (''session_id'', PyStr session_id)]) hp5)"

text \<open>A honeypot as \<open>SMTPHoneypot.__init__\<close> leaves it, for a given message cap.\<close>

definition smtp_init :: "int \<Rightarrow> SMTPHoneypot" where
  "smtp_init cap =
     \<lparr>max_message_size = cap, hostname = ''mail.example.com'',
      smtp_active_connections = 0, smtp_total_connections = 0, total_messages = 0,
      smtp_events = [], smtp_sent = [], smtp_log = [], smtp_lists = []\<rparr>"

section \<open>SSH honeypot: sessions and bans\<close>

text \<open>
  \<open>str.isalnum()\<close> in the range of this model: the string is not empty and every
  character is a letter or a numeric character, which below 256 are the ASCII digits and
  letters, the ordinal indicators 0xAA and 0xBA, the micro sign 0xB5, the superscripts
  0xB2, 0xB3 and 0xB9, the fractions 0xBC to 0xBE, and the Latin-1 letters 0xC0 to 0xFF
  without the multiplication and division signs 0xD7 and 0xF7.
\<close>

definition isalnum_char :: "char \<Rightarrow> bool" where
  "isalnum_char c =
     (let n = (of_char c :: nat)
      in (48 \<le> n \<and> n \<le> 57) \<or> (65 \<le> n \<and> n \<le> 90) \<or> (97 \<le> n \<and> n \<le> 122)
         \<or> n = 170 \<or> n = 178 \<or> n = 179 \<or> n = 181 \<or> n = 185 \<or> n = 186
         \<or> (188 \<le> n \<and> n \<le> 190)
         \<or> (192 \<le> n \<and> n \<noteq> 215 \<and> n \<noteq> 247))"











text \<open>
  What \<open>reader.read(4096)\<close> (and \<open>reader.readline()\<close> for the client's version
  line) hands over: a chunk of bytes that is not empty, as the text that
  \<open>decode("utf-8", errors="ignore")\<close> makes of it, the end of the stream (the empty
  bytes), or the timeout.
\<close>

datatype stream_read = Data string | Eof | Timeout










section \<open>Regular expressions\<close>

text \<open>
  The compiled patterns of the HTTP honeypot, as the \<open>re\<close> module reads the pattern
  strings under \<open>re.IGNORECASE\<close>. A pattern is built from single-character tests:
  a literal character (which matches in either case), the classes \<open>\s\<close> and \<open>\w\<close>,
  a negated set such as \<open>[^>]\<close>, and the dot (anything but a newline); and from
  concatenation, alternation and the star. Groups only bracket, \<open>r+\<close> is \<open>r\<close>
  followed by \<open>r*\<close>. None of the patterns has an anchor, a back-reference or a
  look-around, so whether \<open>pattern.search(s)\<close> finds a match is the question whether
  some stretch of \<open>s\<close> belongs to the language of the pattern.
\<close>

datatype atom = Lit char | Whitespace | WordChar | NotIn string | Dot

datatype regex =
    Nothing
  | Eps
  | Atom atom
  | Times regex regex
  | Alt regex regex
  | Star regex

fun atom_ok :: "atom \<Rightarrow> char \<Rightarrow> bool" where
  "atom_ok (Lit a) c = (lower_char c = lower_char a)"
| "atom_ok Whitespace c = isspace_char c"
| "atom_ok WordChar c = (isalnum_char c \<or> c = CHR ''_'')"
| "atom_ok (NotIn cs) c = (c \<notin> set cs)"
| "atom_ok Dot c = (c \<noteq> CHR 0x0A)"

text \<open>Builders for the pattern tables: a literal string, a sequence, a choice, \<open>r+\<close>.\<close>

definition str :: "string \<Rightarrow> regex" where
  "str s = foldr (\<lambda>c r. Times (Atom (Lit c)) r) s Eps"

definition seqs :: "regex list \<Rightarrow> regex" where
  "seqs rs = foldr Times rs Eps"

definition alts :: "regex list \<Rightarrow> regex" where
  "alts rs = foldr Alt rs Nothing"

definition plus1 :: "regex \<Rightarrow> regex" where
  "plus1 r = Times r (Star r)"

text \<open>
  Matching by derivatives: \<open>nullable r\<close> says that \<open>r\<close> matches the empty string,
  \<open>deriv c r\<close> is what remains to be matched after \<open>c\<close>. \<open>alt\<close> and \<open>seq\<close>
  build a choice and a sequence and drop the parts that can no longer match.
\<close>

fun nullable :: "regex \<Rightarrow> bool" where
  "nullable Nothing = False"
| "nullable Eps = True"
| "nullable (Atom a) = False"
| "nullable (Times r s) = (nullable r \<and> nullable s)"
| "nullable (Alt r s) = (nullable r \<or> nullable s)"
| "nullable (Star r) = True"

fun alt :: "regex \<Rightarrow> regex \<Rightarrow> regex" where
  "alt Nothing s = s"
| "alt r Nothing = r"
| "alt r s = Alt r s"

fun seq :: "regex \<Rightarrow> regex \<Rightarrow> regex" where
  "seq Nothing s = Nothing"
| "seq Eps s = s"
| "seq r s = Times r s"

fun deriv :: "char \<Rightarrow> regex \<Rightarrow> regex" where
  "deriv c Nothing = Nothing"
| "deriv c Eps = Nothing"
| "deriv c (Atom a) = (if atom_ok a c then Eps else Nothing)"
| "deriv c (Times r s) =
     (if nullable r then alt (seq (deriv c r) s) (deriv c s) else seq (deriv c r) s)"
| "deriv c (Alt r s) = alt (deriv c r) (deriv c s)"
| "deriv c (Star r) = seq (deriv c r) (Star r)"

text \<open>
  \<open>match_here r s\<close>: some prefix of \<open>s\<close> matches \<open>r\<close>. \<open>search r s\<close>: a match
  starts at some position of \<open>s\<close>, which is when \<open>pattern.search(s)\<close> is not
  \<open>None\<close>.
\<close>

fun match_here :: "regex \<Rightarrow> string \<Rightarrow> bool" where
  "match_here r [] = nullable r"
| "match_here r (c # cs) = (nullable r \<or> (deriv c r \<noteq> Nothing \<and> match_here (deriv c r) cs))"

fun search :: "regex \<Rightarrow> string \<Rightarrow> bool" where
  "search r [] = nullable r"
| "search r (c # cs) = (match_here r (c # cs) \<or> search r cs)"




section \<open>HTTP honeypot\<close>

text \<open>
  The pattern tables \<open>SQL_INJECTION_PATTERNS\<close>, \<open>XSS_PATTERNS\<close> and
  \<open>PATH_TRAVERSAL_PATTERNS\<close>, each entry next to its pattern string, and
  \<open>SUSPICIOUS_PATHS\<close>.
\<close>

definition quote :: regex where
  "quote = Atom (Lit (CHR 0x27))"

definition SQL_INJECTION_PATTERNS :: "regex list" where
  \<open>SQL_INJECTION_PATTERNS =
     [ \<comment> \<open>\<open>(\%27)|(\')|(\-\-)|(\%23)|(#)\<close>\<close>
       alts [str ''%27'', quote, str ''--'', str ''%23'', str ''#''],
       \<comment> \<open>\<open>((\%3D)|(=))[^\n]*((\%27)|(\')|(\-\-)|(\%3B)|(;))\<close>\<close>
       seqs [alts [str ''%3D'', str ''=''], Star (Atom (NotIn [CHR 0x0A])),
             alts [str ''%27'', quote, str ''--'', str ''%3B'', str '';'']],
       \<comment> \<open>\<open>\w*((\%27)|(\'))((\%6F)|o|(\%4F))((\%72)|r|(\%52))\<close>\<close>
       seqs [Star (Atom WordChar), alts [str ''%27'', quote],
             alts [str ''%6F'', str ''o'', str ''%4F''],
             alts [str ''%72'', str ''r'', str ''%52'']],
       \<comment> \<open>\<open>((\%27)|(\'))union\<close>\<close>
       seqs [alts [str ''%27'', quote], str ''union''],
       \<comment> \<open>\<open>exec(\s|\+)+(s|x)p\w+\<close>\<close>
       seqs [str ''exec'', plus1 (alts [Atom Whitespace, str ''+'']), alts [str ''s'', str ''x''],
             str ''p'', plus1 (Atom WordChar)],
       \<comment> \<open>\<open>UNION\s+SELECT\<close>\<close>
       seqs [str ''UNION'', plus1 (Atom Whitespace), str ''SELECT''],
       \<comment> \<open>\<open>SELECT\s+.*\s+FROM\<close>\<close>
       seqs [str ''SELECT'', plus1 (Atom Whitespace), Star (Atom Dot), plus1 (Atom Whitespace),
             str ''FROM''],
       \<comment> \<open>\<open>INSERT\s+INTO\<close>\<close>
       seqs [str ''INSERT'', plus1 (Atom Whitespace), str ''INTO''],
       \<comment> \<open>\<open>DELETE\s+FROM\<close>\<close>
       seqs [str ''DELETE'', plus1 (Atom Whitespace), str ''FROM''],
       \<comment> \<open>\<open>DROP\s+TABLE\<close>\<close>
       seqs [str ''DROP'', plus1 (Atom Whitespace), str ''TABLE''],
       \<comment> \<open>\<open>UPDATE\s+.*\s+SET\<close>\<close>
       seqs [str ''UPDATE'', plus1 (Atom Whitespace), Star (Atom Dot), plus1 (Atom Whitespace),
             str ''SET''],
       \<comment> \<open>\<open>OR\s+1\s*=\s*1\<close>\<close>
       seqs [str ''OR'', plus1 (Atom Whitespace), str ''1'', Star (Atom Whitespace), str ''='',
             Star (Atom Whitespace), str ''1''],
       \<comment> \<open>\<open>OR\s+'[^']*'\s*=\s*'[^']*'\<close>\<close>
       seqs [str ''OR'', plus1 (Atom Whitespace), quote, Star (Atom (NotIn [CHR 0x27])), quote,
             Star (Atom Whitespace), str ''='', Star (Atom Whitespace), quote,
             Star (Atom (NotIn [CHR 0x27])), quote] ]\<close>

definition XSS_PATTERNS :: "regex list" where
  \<open>XSS_PATTERNS =
     [ \<comment> \<open>\<open><script[^>]*>\<close>\<close>
       seqs [str ''<script'', Star (Atom (NotIn ''>'')), str ''>''],
       \<comment> \<open>\<open>javascript:\<close>\<close>
       str ''javascript:'',
       \<comment> \<open>\<open>onerror\s*=\<close>\<close>
       seqs [str ''onerror'', Star (Atom Whitespace), str ''=''],
       \<comment> \<open>\<open>onload\s*=\<close>\<close>
       seqs [str ''onload'', Star (Atom Whitespace), str ''=''],
       \<comment> \<open>\<open>onclick\s*=\<close>\<close>
       seqs [str ''onclick'', Star (Atom Whitespace), str ''=''],
       \<comment> \<open>\<open><iframe\<close>\<close>
       str ''<iframe'',
       \<comment> \<open>\<open><img[^>]+onerror\<close>\<close>
       seqs [str ''<img'', plus1 (Atom (NotIn ''>'')), str ''onerror''] ]\<close>

definition PATH_TRAVERSAL_PATTERNS :: "regex list" where
  \<open>PATH_TRAVERSAL_PATTERNS =
     [ \<comment> \<open>\<open>\.\./\<close>\<close>
       str ''../'',
       \<comment> \<open>two dots and a backslash\<close>
       seqs [str ''..'', Atom (Lit (CHR 0x5C))],
       \<comment> \<open>\<open>/etc/passwd\<close>\<close>
       str ''/etc/passwd'',
       \<comment> \<open>\<open>/etc/shadow\<close>\<close>
       str ''/etc/shadow'',
       \<comment> \<open>\<open>c:\\windows\<close>\<close>
       seqs [str ''c:'', Atom (Lit (CHR 0x5C)), str ''windows''],
       \<comment> \<open>\<open>boot\.ini\<close>\<close>
       str ''boot.ini'' ]\<close>

definition SUSPICIOUS_PATHS :: "string list" where
  "SUSPICIOUS_PATHS =
     [''/admin'', ''/wp-admin'', ''/wp-login.php'', ''/phpmyadmin'', ''/phpMyAdmin'',
      ''/.env'', ''/config.php'', ''/wp-config.php'', ''/xmlrpc.php'', ''/.git'', ''/.svn'',
      ''/backup'', ''/db'', ''/sql'', ''/shell'', ''/cmd'', ''/console'', ''/manager'',
      ''/actuator'', ''/api/v1/pods'', ''/metrics'']"

text \<open>\<open>HTTPEvent\<close>, without its timestamp.\<close>

record HTTPEvent =
  http_event_type :: string
  http_source_ip :: string
  http_source_port :: nat
  http_method :: string
  http_path :: string
  http_headers :: "(string \<times> string) list"
  http_body :: string
  http_user_agent :: string
  http_attack_type :: string
  http_session_id :: string

text \<open>
  The fields of \<open>HTTPHoneypot\<close> that a connection reads or changes, with what the
  connection writes and logs. A dict is its list of items in insertion order, for the
  headers of a request as for \<open>fake_services\<close>.
\<close>

record HTTPHoneypot =
  http_max_connections :: int
  http_active_connections :: int
  http_events :: "HTTPEvent list"
  sql_patterns :: "regex list"
  xss_patterns :: "regex list"
  path_patterns :: "regex list"
  fake_services :: "(string \<times> string) list"
  total_requests :: nat
  attacks_detected :: nat
  http_sent :: "string list"
  http_writer_closed :: bool
  http_log :: "log_record list"

text \<open>
  Decimal digits of a number, for the status code and the Content-Length of a response
  (\<open>decimal_fuel\<close> carries the number of digits still allowed, which
  \<open>decimal\<close> sets to more than any number has).
\<close>

fun decimal_fuel :: "nat \<Rightarrow> nat \<Rightarrow> string" where
  "decimal_fuel 0 n = []"
| "decimal_fuel (Suc k) n =
     (if n < 10 then [''0123456789'' ! n]
      else decimal_fuel k (n div 10) @ [''0123456789'' ! (n mod 10)])"

definition decimal :: "nat \<Rightarrow> string" where
  "decimal n = decimal_fuel (Suc n) n"

text \<open>\<open>HTTPHoneypot._build_response\<close>, as text (the source encodes it to bytes).\<close>

definition build_response :: "nat \<Rightarrow> string \<Rightarrow> string \<Rightarrow> string" where
  "build_response status_code status_text body =
     (let content_type = (if startswith body ''{'' then ''application/json'' else ''text/html'')
      in ''HTTP/1.1 '' @ decimal status_code @ '' '' @ status_text @ [CHR 0x0D, CHR 0x0A]
         @ ''Content-Type: '' @ content_type @ [CHR 0x0D, CHR 0x0A]
         @ ''Content-Length: '' @ decimal (length body) @ [CHR 0x0D, CHR 0x0A]
         @ ''Server: Apache/2.4.41 (Ubuntu)'' @ [CHR 0x0D, CHR 0x0A]
         @ ''Connection: close'' @ [CHR 0x0D, CHR 0x0A]
         @ [CHR 0x0D, CHR 0x0A]
         @ body)"

text \<open>The four pages, line by line (the lines are joined by newlines).\<close>

definition get_index_page :: string where
  \<open>get_index_page = py_join [CHR 0x0A]
     [''<!DOCTYPE html>'',
      ''<html><head><title>Welcome</title></head>'',
      ''<body><h1>Welcome to our service</h1><p>Please log in to continue.</p></body></html>'']\<close>

definition get_login_page :: string where
  \<open>get_login_page = py_join [CHR 0x0A]
     [''<!DOCTYPE html>'',
      ''<html><head><title>Admin Login</title></head>'',
      ''<body><h1>Admin Login</h1>'',
      ''<form method="post"><input name="user" placeholder="Username"><input name="pass" type="password"><button>Login</button></form></body></html>'']\<close>

definition get_wordpress_admin :: string where
  \<open>get_wordpress_admin = py_join [CHR 0x0A]
     [''<!DOCTYPE html>'',
      ''<html><head><title>WordPress &rsaquo; Log In</title></head>'',
      ''<body class="login"><div id="login">'',
      ''<h1><a href="https://wordpress.org/">WordPress</a></h1>'',
      ''<form method="post"><p><label>Username<input name="log" type="text"></label></p>'',
      ''<p><label>Password<input name="pwd" type="password"></label></p>'',
      ''<p><input type="submit" value="Log In"></p></form></div></body></html>'']\<close>

definition get_phpmyadmin_page :: string where
  \<open>get_phpmyadmin_page = py_join [CHR 0x0A]
     [''<!DOCTYPE html>'',
      ''<html><head><title>phpMyAdmin</title></head>'',
      ''<body><div id="pma_header"><h1>phpMyAdmin</h1></div>'',
      ''<form method="post"><input name="pma_username" placeholder="Username">'',
      ''<input name="pma_password" type="password"><button>Go</button></form></body></html>'']\<close>

text \<open>\<open>HTTPHoneypot._load_fake_services\<close>.\<close>

definition load_fake_services :: "(string \<times> string) list" where
  \<open>load_fake_services =
     [(''/'', build_response 200 ''OK'' get_index_page),
      (''/health'', build_response 200 ''OK'' ''{"status": "healthy"}''),
      (''/ready'', build_response 200 ''OK'' ''{"ready": true}''),
      (''/robots.txt'', build_response 200 ''OK''
          (''User-agent: *'' @ [CHR 0x0A] @ ''Disallow: /admin'' @ [CHR 0x0A]
           @ ''Disallow: /api'')),
      (''/admin'', build_response 401 ''Unauthorized'' get_login_page),
      (''/wp-admin'', build_response 200 ''OK'' get_wordpress_admin),
      (''/phpmyadmin'', build_response 200 ''OK'' get_phpmyadmin_page),
      (''/api'', build_response 200 ''OK''
          ''{"version": "1.0", "endpoints": ["/users", "/products"]}'')]\<close>

text \<open>\<open>HTTPHoneypot.__init__\<close> with the default arguments.\<close>

definition http_init :: HTTPHoneypot where
  "http_init =
     \<lparr>http_max_connections = 100, http_active_connections = 0, http_events = [],
      sql_patterns = SQL_INJECTION_PATTERNS, xss_patterns = XSS_PATTERNS,
      path_patterns = PATH_TRAVERSAL_PATTERNS, fake_services = load_fake_services,
      total_requests = 0, attacks_detected = 0, http_sent = [],
      http_writer_closed = False, http_log = []\<rparr>"

text \<open>
  \<open>HTTPHoneypot.parse_request\<close>. \<open>header_loop\<close> is the loop over
  \<open>enumerate(lines[1:], 1)\<close>: it returns the headers and \<open>body_start\<close>, which
  stays 0 when no empty line ends the headers.
\<close>

fun header_loop ::
  "nat \<Rightarrow> (string \<times> string) list \<Rightarrow> string list \<Rightarrow> (string \<times> string) list \<times> nat" where
  "header_loop i headers [] = (headers, 0)"
| "header_loop i headers (line # rest) =
     (if line = [] then (headers, i + 1)
      else if py_in '': '' line
      then (case py_split1 line '': '' of
              [key, v] \<Rightarrow> header_loop (i + 1) (dict_set headers key v) rest
            | _ \<Rightarrow> header_loop (i + 1) headers rest)
      else header_loop (i + 1) headers rest)"

definition parse_request ::
  "string \<Rightarrow> (string \<times> string \<times> (string \<times> string) list \<times> string) option" where
  "parse_request data =
     (let lines = py_split data [CHR 0x0D, CHR 0x0A]
      in case lines of
           [] \<Rightarrow> None
         | first_line # more_lines \<Rightarrow>
             (case py_split first_line '' '' of
                method # path # more_words \<Rightarrow>
                  (let (headers, body_start) = header_loop 1 [] more_lines;
                       body = (if body_start < length lines
                               then py_join [CHR 0x0D, CHR 0x0A] (drop body_start lines)
                               else [])
                   in Some (method, path, headers, body))
              | _ \<Rightarrow> None))"

text \<open>
  \<open>HTTPHoneypot.detect_attack\<close>. \<open>full_input\<close> is the text the source builds
  from the path, the body and the header values; \<open>first_match\<close> is the loop
  \<open>for pattern in patterns: if pattern.search(s): return ...\<close>, which leaves at the
  first pattern that matches; \<open>first_suspicious\<close> is the loop over
  \<open>SUSPICIOUS_PATHS\<close>. \<open>urlparse_path\<close> stands for the library's
  \<open>urlparse(path).path\<close>, which is not part of the repository: \<open>None\<close> when
  \<open>urlparse\<close> raises ValueError, and then \<open>detect_attack\<close> raises too (\<open>None\<close>).
\<close>

fun first_match :: "regex list \<Rightarrow> string \<Rightarrow> bool" where
  "first_match [] s = False"
| "first_match (pattern # rest) s = (if search pattern s then True else first_match rest s)"

fun first_suspicious :: "string list \<Rightarrow> string \<Rightarrow> bool" where
  "first_suspicious [] parsed_path = False"
| "first_suspicious (suspicious # rest) parsed_path =
     (if py_in (py_lower suspicious) parsed_path then True
      else first_suspicious rest parsed_path)"

definition full_input :: "string \<Rightarrow> (string \<times> string) list \<Rightarrow> string \<Rightarrow> string" where
  "full_input path headers body = path @ '' '' @ body @ '' '' @ py_join '' '' (map snd headers)"

definition detect_attack ::
  "(string \<Rightarrow> string option) \<Rightarrow> HTTPHoneypot \<Rightarrow> string \<Rightarrow> (string \<times> string) list \<Rightarrow> string
     \<Rightarrow> string option" where
  "detect_attack urlparse_path hp path headers body =
     (if first_match (sql_patterns hp) (full_input path headers body) then Some ''sql_injection''
      else if first_match (xss_patterns hp) (full_input path headers body) then Some ''xss''
      else if first_match (path_patterns hp) path then Some ''path_traversal''
      else (case urlparse_path path of
              None \<Rightarrow> None
            | Some p \<Rightarrow>
                (let parsed_path = py_lower p
                 in if first_suspicious SUSPICIOUS_PATHS parsed_path
                    then Some ''reconnaissance''
                    else Some [])))"

text \<open>
  \<open>HTTPHoneypot.get_response\<close>: the exact entry, else the first entry of
  \<open>fake_services\<close> other than \<open>/\<close> that is a prefix of the path, else the 404
  page. \<open>None\<close> when \<open>urlparse\<close> raises.
\<close>

fun prefix_service :: "(string \<times> string) list \<Rightarrow> string \<Rightarrow> string option" where
  "prefix_service [] parsed_path = None"
| "prefix_service ((service_path, response) # rest) parsed_path =
     (if startswith parsed_path service_path \<and> service_path \<noteq> ''/'' then Some response
      else prefix_service rest parsed_path)"

definition get_response ::
  "(string \<Rightarrow> string option) \<Rightarrow> HTTPHoneypot \<Rightarrow> string \<Rightarrow> string option" where
  "get_response urlparse_path hp path =
     (case urlparse_path path of
        None \<Rightarrow> None
      | Some parsed_path \<Rightarrow>
          (case map_of (fake_services hp) parsed_path of
             Some response \<Rightarrow> Some response
           | None \<Rightarrow>
               (case prefix_service (fake_services hp) parsed_path of
                  Some response \<Rightarrow> Some response
                | None \<Rightarrow>
                    Some (build_response 404 ''Not Found''
                            ''<html><body><h1>404 Not Found</h1></body></html>''))))"

text \<open>
  \<open>HTTPHoneypot.handle_connection\<close> for one connection. \<open>request\<close> is what
  \<open>reader.read(8192)\<close> returns within its 30 seconds, as decoded text. An exception
  from \<open>detect_attack\<close> or \<open>get_response\<close> is caught by the handler's
  \<open>except Exception\<close>, which logs an error; the \<open>finally\<close> block runs on every path.
  (The message of the error record is left out.)
\<close>

definition http_finally :: "HTTPHoneypot \<Rightarrow> HTTPHoneypot" where
  "http_finally hp =
     hp\<lparr>http_active_connections := http_active_connections hp - 1,
        http_writer_closed := True\<rparr>"

definition http_logger :: "level \<Rightarrow> pyval \<Rightarrow> HTTPHoneypot \<Rightarrow> HTTPHoneypot" where
  "http_logger lvl entry hp = hp\<lparr>http_log := http_log hp @ [(lvl, entry)]\<rparr>"

definition http_handle_connection ::
  "(string \<Rightarrow> string option) \<Rightarrow> string \<times> nat \<times> string \<Rightarrow> stream_read \<Rightarrow> HTTPHoneypot
     \<Rightarrow> HTTPHoneypot" where
  "http_handle_connection urlparse_path conn request hp0 =
     (let (client_ip, client_port, sid) = conn;
          hp = hp0\<lparr>http_sent := [], http_writer_closed := False\<rparr>
      in if http_active_connections hp \<ge> http_max_connections hp
         then hp\<lparr>http_writer_closed := True\<rparr>
         else
           (let hp1 = hp\<lparr>http_active_connections := http_active_connections hp + 1\<rparr>
            in case request of
                 Timeout \<Rightarrow> http_finally hp1
               | Eof \<Rightarrow> http_finally hp1
               | Data request_data \<Rightarrow>
                   (case parse_request request_data of
                      None \<Rightarrow> http_finally hp1
                    | Some (method, path, headers, body) \<Rightarrow>
                        (let hp2 = hp1\<lparr>total_requests := total_requests hp1 + 1\<rparr>
                         in case detect_attack urlparse_path hp2 path headers body of
                              None \<Rightarrow>
                                http_finally
                                  (http_logger ERROR (PyDict [(''event'', PyStr ''error'')]) hp2)
                            | Some attack_type \<Rightarrow>
                                (let user_agent =
                                       (case map_of headers ''User-Agent'' of
                                          Some ua \<Rightarrow> ua | None \<Rightarrow> []);
                                     event = \<lparr>http_event_type = ''http_request'',
                                              http_source_ip = client_ip,
                                              http_source_port = client_port,
                                              http_method = method,
                                              http_path = path,
                                              http_headers = headers,
                                              http_body = take 1000 body,
                                              http_user_agent = user_agent,
                                              http_attack_type = attack_type,
                                              http_session_id = sid\<rparr>;
                                     log_data = [(''event'', PyStr ''http_request''),
                                                 (''session_id'', PyStr sid),
                                                 (''method'', PyStr method),
                                                 (''path'', PyStr path),
                                                 (''source_ip'', PyStr client_ip),
                                                 (''user_agent'', PyStr (take 100 user_agent))];
                                     hp3 = (if attack_type \<noteq> []
                                            then http_logger WARNING
                                                   (PyDict (log_data
                                                      @ [(''attack_type'', PyStr attack_type)]))
                                                   (hp2\<lparr>attacks_detected :=
                                                           attacks_detected hp2 + 1\<rparr>)
                                            else http_logger INFO (PyDict log_data) hp2);
                                     hp4 = hp3\<lparr>http_events := http_events hp3 @ [event]\<rparr>
                                 in case get_response urlparse_path hp4 path of
                                      None \<Rightarrow>
                                        http_finally
                                          (http_logger ERROR
                                             (PyDict [(''event'', PyStr ''error'')]) hp4)
                                    | Some response \<Rightarrow>
                                        http_finally
                                          (hp4\<lparr>http_sent := http_sent hp4 @ [response]\<rparr>))))))"

text \<open>
  The library's \<open>urlparse(target).path\<close> for a string, as \<open>urllib.parse\<close> of
  CPython 3.11 computes it (\<open>urlsplit\<close> followed by \<open>_splitparams\<close>): control
  characters and spaces are dropped at the front, tabs, carriage returns and newlines
  everywhere; a scheme is split off at the first colon when a letter and then only scheme
  characters stand before it; after \<open>//\<close> the network location runs to the first of
  \<open>/\<close>, \<open>?\<close> and \<open>#\<close>; the path is what follows, up to the first \<open>#\<close> or
  \<open>?\<close>; and for a scheme that takes parameters (the empty scheme is one) the path
  loses what a semicolon starts in its last segment. ValueError (\<open>None\<close>) is raised
  for a network location with only one of the two square brackets, and for one with both
  whose bracketed host \<open>_check_bracketed_host\<close> refuses. That check calls the
  \<open>ipaddress\<close> module and is the parameter \<open>host_ok\<close> here. The third check,
  \<open>_checknetloc\<close>, never raises in the range of this model: the NFKC form of no
  character below 256 holds one of the characters it looks for.
\<close>

definition c0_or_space :: "char \<Rightarrow> bool" where
  "c0_or_space c = ((of_char c :: nat) \<le> 32)"

definition ascii_alpha :: "char \<Rightarrow> bool" where
  "ascii_alpha c =
     (let n = (of_char c :: nat) in (65 \<le> n \<and> n \<le> 90) \<or> (97 \<le> n \<and> n \<le> 122))"

definition scheme_char :: "char \<Rightarrow> bool" where
  "scheme_char c = (ascii_alpha c \<or> isdigit_char c \<or> c \<in> set ''+-.'')"

definition uses_params :: "string list" where
  "uses_params =
     [[], ''ftp'', ''hdl'', ''prospero'', ''http'', ''imap'', ''https'', ''shttp'', ''rtsp'',
      ''rtsps'', ''rtspu'', ''sip'', ''sips'', ''mms'', ''sftp'', ''tel'']"

definition split_scheme :: "string \<Rightarrow> string \<times> string" where
  "split_scheme url =
     (case py_find url CHR '':'' of
        Some i \<Rightarrow>
          if 0 < i \<and> ascii_alpha (hd url) \<and> list_all scheme_char (take i url)
          then (py_lower (take i url), drop (i + 1) url)
          else ([], url)
      | None \<Rightarrow> ([], url))"

definition split_netloc :: "string \<Rightarrow> string \<times> string" where
  "split_netloc url =
     (let rest = drop 2 url;
          netloc = takeWhile (\<lambda>c. c \<notin> set ''/?#'') rest
      in (netloc, drop (length netloc) rest))"

definition bracketed_host :: "string \<Rightarrow> string" where
  "bracketed_host netloc =
     takeWhile (\<lambda>c. c \<noteq> CHR '']'') (drop 1 (dropWhile (\<lambda>c. c \<noteq> CHR ''['') netloc))"

definition cut_params :: "string \<Rightarrow> string" where
  "cut_params p =
     (let last_segment = last (py_split p ''/'');
          dir = take (length p - length last_segment) p
      in dir @ takeWhile (\<lambda>c. c \<noteq> CHR '';'') last_segment)"

definition urllib_path :: "(string \<Rightarrow> bool) \<Rightarrow> string \<Rightarrow> string option" where
  "urllib_path host_ok target =
     (let url = filter (\<lambda>c. c \<notin> set [CHR 0x09, CHR 0x0D, CHR 0x0A])
                  (dropWhile c0_or_space target);
          (scheme, url1) = split_scheme url;
          (netloc, url2) = (if take 2 url1 = ''//'' then split_netloc url1 else ([], url1));
          path = takeWhile (\<lambda>c. c \<noteq> CHR ''?'') (takeWhile (\<lambda>c. c \<noteq> CHR ''#'') url2)
      in if (CHR ''['' \<in> set netloc) \<noteq> (CHR '']'' \<in> set netloc) then None
         else if CHR ''['' \<in> set netloc \<and> \<not> host_ok (bracketed_host netloc) then None
         else Some (if scheme \<in> set uses_params \<and> CHR '';'' \<in> set path
                    then cut_params path else path))"



section \<open>Properties of the SSH packet builders\<close>

lemma os_urandom_length: "length (fst (os_urandom n s)) = n"
  by (simp add: os_urandom_def)

text \<open>
  The padding rule both builders use, for any payload: with \<open>n\<close> the packet length
  before padding, the chosen value is at least 4, brings the whole packet to a multiple of
  8, and no smaller value from 4 on does.
\<close>

lemma padding_rule:
  fixes n :: nat
  defines "p0 \<equiv> 8 - ((n + 4) mod 8)"
  defines "p \<equiv> (if p0 < 4 then p0 + 8 else p0)"
  shows "4 \<le> p" and "p \<le> 11" and "(4 + (n + p)) mod 8 = 0"
    and "4 \<le> q \<Longrightarrow> (4 + (n + q)) mod 8 = 0 \<Longrightarrow> p \<le> q"
  unfolding p_def p0_def by presburger+

lemma kexinit_fields:
  "length (fst (build_kexinit s)) = 224"
  "packet_length (fst (build_kexinit s)) = 220"
  "padding_length (fst (build_kexinit s)) = 6"
  by (simp_all add: build_kexinit_def Let_def split_def os_urandom_length bytes_of_def
        pack_u32_be_def packet_length_def padding_length_def unpack_u32_be_def)

lemma auth_failure_fields:
  "length (fst (build_auth_failure s)) = 32"
  "packet_length (fst (build_auth_failure s)) = 28"
  "padding_length (fst (build_auth_failure s)) = 4"
  by (simp_all add: build_auth_failure_def Let_def split_def os_urandom_length bytes_of_def
        pack_u32_be_def packet_length_def padding_length_def unpack_u32_be_def)

text \<open>
  C6. For the KEXINIT packet and for the USERAUTH_FAILURE packet, whatever the random
  bytes: the length field holds the padding-length byte, the payload and the padding
  (so the packet is that plus the four bytes of the field itself); the padding length is
  at least 4; the four-byte field plus the packet length is a multiple of 8; and every
  \<open>q\<close> from 4 on that would also make it a multiple of 8 is at least the padding
  length chosen.
\<close>

theorem ssh_padding_smallest:
  assumes "pkt = fst (build_kexinit s) \<or> pkt = fst (build_auth_failure s)"
  shows "packet_length pkt = 1 + payload_length pkt + padding_length pkt
       \<and> length pkt = 4 + packet_length pkt
       \<and> 4 \<le> padding_length pkt
       \<and> (4 + packet_length pkt) mod 8 = 0
       \<and> (\<forall>q. 4 \<le> q \<and> (4 + (1 + payload_length pkt + q)) mod 8 = 0
              \<longrightarrow> padding_length pkt \<le> q)"
  using assms
  by (auto simp add: kexinit_fields auth_failure_fields payload_length_def) presburger+

theorem ssh_padding_smallest_witness:
  "packet_length (fst (build_auth_failure (\<lambda>i. of_nat i))) = 28
   \<and> padding_length (fst (build_auth_failure (\<lambda>i. of_nat i))) = 4
   \<and> payload_length (fst (build_auth_failure (\<lambda>i. of_nat i))) = 23
   \<and> (4 + (1 + 23 + (12::nat))) mod 8 = 0
   \<and> padding_length (fst (build_auth_failure (\<lambda>i. of_nat i))) \<le> 12"
  using ssh_padding_smallest [of "fst (build_auth_failure (\<lambda>i. of_nat i))" "\<lambda>i. of_nat i"]
  by (simp add: auth_failure_fields payload_length_def)

section \<open>Properties of the MySQL responses\<close>

lemma py_rstrip_take: "\<exists>k. py_rstrip t = take k t"
  unfolding py_rstrip_def by (metis dropWhile_eq_drop drop_rev rev_swap)

lemma py_rstrip_keeps:
  assumes "\<not> isspace_char c"
  shows "py_rstrip (xs @ c # ys) = xs @ c # py_rstrip ys"
proof (cases "\<forall>y\<in>set ys. isspace_char y")
  case True
  then show ?thesis
    using assms by (simp add: py_rstrip_def dropWhile_append)
next
  case False
  then show ?thesis
    by (auto simp add: py_rstrip_def dropWhile_append)
qed

lemma startswith_rstrip:
  assumes "\<forall>c\<in>set p. \<not> isspace_char c"
  shows "startswith (py_rstrip t) p = startswith t p"
proof (cases p rule: rev_cases)
  case Nil
  then show ?thesis by (simp add: startswith_def)
next
  case (snoc q c)
  show ?thesis
  proof
    assume l: "startswith (py_rstrip t) p"
    obtain k where k: "py_rstrip t = take k t"
      using py_rstrip_take by blast
    from l have "take (length p) (take k t) = p"
      by (simp add: startswith_def k)
    then show "startswith t p"
      unfolding startswith_def
      by (metis append_eq_conv_conj append_take_drop_id append.assoc)
  next
    assume r: "startswith t p"
    then have "t = q @ c # drop (length p) t"
      unfolding startswith_def snoc 
      by (metis append_take_drop_id append.assoc append_Cons append_Nil)
    moreover have "\<not> isspace_char c"
      using assms snoc by simp
    ultimately have "py_rstrip t = q @ c # py_rstrip (drop (length p) t)"
      using py_rstrip_keeps by metis
    then show "startswith (py_rstrip t) p"
      by (simp add: startswith_def snoc)
  qed
qed

lemma select_no_space: "\<forall>c\<in>set ''select''. \<not> isspace_char c"
  by (simp add: isspace_char_def)

lemma strip_select: "startswith (py_strip s) ''select'' = startswith (py_lstrip s) ''select''"
  unfolding py_strip_def by (rule startswith_rstrip [OF select_no_space])

lemma build_ok_packet_wire: "build_ok_packet = spec_packet 2 spec_ok_payload"
  by (simp add: build_ok_packet_def spec_packet_def spec_ok_payload_def pack_u16_le_def
        pack_u32_le_def pack_u32_be_def)

lemma build_empty_result_wire:
  "build_empty_result =
     spec_packet 1 (spec_column_count 1)
     @ spec_packet 2 (spec_column_definition ''result'' MYSQL_TYPE_VAR_STRING)
     @ spec_packet 3 spec_eof_payload @ spec_packet 4 spec_eof_payload"
  by (simp add: build_empty_result_def spec_packet_def spec_eof_payload_def
        spec_column_definition_def spec_lenenc_str_def MYSQL_TYPE_VAR_STRING_def bytes_of_def
        pack_u16_le_def pack_u32_le_def pack_u32_be_def spec_column_count_def)

text \<open>
  C7. For every query text: if the query, lower-cased and trimmed of leading whitespace,
  begins with \<open>select\<close>, the response is four packets with sequence ids 1, 2, 3, 4:
  the column count 1, the definition of a varchar column named \<open>result\<close>, and two
  EOF packets; for every other query it is the OK packet (which goes out with sequence
  id 2).
\<close>

theorem mysql_query_response:
  "build_query_response query =
     (if spec_is_select query
      then spec_packet 1 (spec_column_count 1)
           @ spec_packet 2 (spec_column_definition ''result'' MYSQL_TYPE_VAR_STRING)
           @ spec_packet 3 spec_eof_payload @ spec_packet 4 spec_eof_payload
      else build_ok_packet)
   \<and> build_ok_packet = spec_packet 2 spec_ok_payload"
  by (simp add: build_query_response_def spec_is_select_def strip_select
        build_empty_result_wire build_ok_packet_wire)

theorem mysql_query_response_witness:
  "build_query_response (CHR 0x09 # '' SeLect 1'') =
     spec_packet 1 (spec_column_count 1)
     @ spec_packet 2 (spec_column_definition ''result'' MYSQL_TYPE_VAR_STRING)
     @ spec_packet 3 spec_eof_payload @ spec_packet 4 spec_eof_payload
   \<and> build_query_response ''SHOW TABLES'' = spec_packet 2 spec_ok_payload"
  using mysql_query_response [of "CHR 0x09 # '' SeLect 1''"]
    mysql_query_response [of "''SHOW TABLES''"]
  by (simp add: spec_is_select_def py_lstrip_def py_lower_def lower_char_def isupper_char_def
        isspace_char_def startswith_def)

section \<open>Properties of the decoy API\<close>





lemma products_path_distinct: "''/api/products/'' @ seg \<noteq> ''/api/products''"
  by simp

lemma products_prefix: "startswith (''/api/products/'' @ seg) ''/api/products/''"
  by (simp add: startswith_def)

















section \<open>The SMTP message cap\<close>

text \<open>
  C2. The claim is that every \<open>smtp_message\<close> event has a \<open>message_size\<close> of at
  most \<open>max_message_size\<close>. The code tests the size before it appends a line, not
  after: with a cap of 5, the session \<open>DATA\<close>, \<open>abcd\<close>, \<open>abcd\<close>, \<open>.\<close>
  (no line longer than the cap) appends both lines, and the one event emitted has
  \<open>message_size\<close> 9.
\<close>

theorem smtp_message_size_over_cap:
  "map smtp_message_size
     (smtp_events
        (smtp_handle_connection (''10.0.0.7'', 4242, ''0123456789abcdef'')
           [Recv ''DATA'', Recv ''abcd'', Recv ''abcd'', Recv ''.'']
           (smtp_init 5))) = [9]
   \<and> max_message_size (smtp_init 5) = 5"
  by (simp add: smtp_handle_connection_def smtp_init_def smtp_logger_def send_response_def
        new_list_def list_items_def command_line_def data_line_def Let_def py_strip_def py_lstrip_def py_rstrip_def
        isspace_char_def py_upper_def upper_char_def islower_char_def py_split_ws_def
        extract_subject_def py_split_def startswith_def py_lower_def lower_char_def
        isupper_char_def)

section \<open>Properties of the SSH session\<close>

















section \<open>Properties of the regular-expression matcher\<close>










section \<open>Properties of the HTTP classifier\<close>

lemma first_match_iff: "first_match ps s = (\<exists>p \<in> set ps. search p s)"
  by (induction ps) auto

lemma first_suspicious_iff:
  "first_suspicious xs pp = (\<exists>x \<in> set xs. py_in (py_lower x) pp)"
  by (induction xs) auto

lemma detect_attack_cong:
  assumes "sql_patterns hp' = sql_patterns hp" and "xss_patterns hp' = xss_patterns hp"
    and "path_patterns hp' = path_patterns hp"
  shows "detect_attack up hp' path headers body = detect_attack up hp path headers body"
  using assms by (simp add: detect_attack_def)

text \<open>
  The handler, for a request that parses. When \<open>detect_attack\<close> raises, the handler's
  \<open>except Exception\<close> takes over before the event is built: no event is recorded and
  nothing is sent.
\<close>

lemma handler_detect_raises:
  assumes "parse_request data = Some (method, path, headers, body)"
    and "detect_attack up hp path headers body = None"
  shows "http_events (http_handle_connection up (ip, port, sid) (Data data) hp) = http_events hp
       \<and> http_sent (http_handle_connection up (ip, port, sid) (Data data) hp) = []"
proof -
  have d: "detect_attack up
             (hp\<lparr>http_sent := [], http_writer_closed := False,
                  http_active_connections := a, total_requests := n\<rparr>)
             path headers body = None" for a n
    by (rule trans [OF detect_attack_cong assms(2)]) simp_all
  show ?thesis
    by (simp add: http_handle_connection_def assms(1) Let_def d http_logger_def
          http_finally_def)
qed




text \<open>
  C4, as stated, fails for a request target that \<open>urlparse\<close> refuses. In the target
  \<open>//[x/.env\<close> the network location \<open>[x\<close> opens a bracket and does not close it,
  and \<open>urlparse\<close> raises ValueError. No SQL, XSS or traversal pattern matches the
  request, so the classifier comes to the reconnaissance step and raises there: it
  returns neither a category nor the empty tag, and the handler records no event for the
  request and sends no response. (The path holds \<open>/.env\<close>, one of the suspicious
  paths.)
\<close>

theorem detect_attack_raises_counterexample:
  "\<forall>host_ok.
     urllib_path host_ok ''//[x/.env'' = None
     \<and> parse_request (''GET //[x/.env HTTP/1.1'' @ [CHR 0x0D, CHR 0x0A]
                       @ ''Host: x'' @ [CHR 0x0D, CHR 0x0A, CHR 0x0D, CHR 0x0A])
         = Some (''GET'', ''//[x/.env'', [(''Host'', ''x'')], [])
     \<and> detect_attack (urllib_path host_ok) http_init ''//[x/.env'' [(''Host'', ''x'')] [] = None
     \<and> http_events
          (http_handle_connection (urllib_path host_ok)
             (''10.0.0.7'', 4242, ''0123456789abcdef'')
             (Data (''GET //[x/.env HTTP/1.1'' @ [CHR 0x0D, CHR 0x0A]
                    @ ''Host: x'' @ [CHR 0x0D, CHR 0x0A, CHR 0x0D, CHR 0x0A]))
             http_init) = []
     \<and> http_sent
          (http_handle_connection (urllib_path host_ok)
             (''10.0.0.7'', 4242, ''0123456789abcdef'')
             (Data (''GET //[x/.env HTTP/1.1'' @ [CHR 0x0D, CHR 0x0A]
                    @ ''Host: x'' @ [CHR 0x0D, CHR 0x0A, CHR 0x0D, CHR 0x0A]))
             http_init) = []"
proof
  fix host_ok
  have u: "urllib_path host_ok ''//[x/.env'' = None"
    by code_simp
  have p: "parse_request (''GET //[x/.env HTTP/1.1'' @ [CHR 0x0D, CHR 0x0A]
                       @ ''Host: x'' @ [CHR 0x0D, CHR 0x0A, CHR 0x0D, CHR 0x0A])
         = Some (''GET'', ''//[x/.env'', [(''Host'', ''x'')], [])"
    by code_simp
  have d: "detect_attack (urllib_path host_ok) http_init ''//[x/.env'' [(''Host'', ''x'')] []
             = None"
    by code_simp
  have e: "http_events http_init = []"
    by (simp add: http_init_def)
  show "urllib_path host_ok ''//[x/.env'' = None
     \<and> parse_request (''GET //[x/.env HTTP/1.1'' @ [CHR 0x0D, CHR 0x0A]
                       @ ''Host: x'' @ [CHR 0x0D, CHR 0x0A, CHR 0x0D, CHR 0x0A])
         = Some (''GET'', ''//[x/.env'', [(''Host'', ''x'')], [])
     \<and> detect_attack (urllib_path host_ok) http_init ''//[x/.env'' [(''Host'', ''x'')] [] = None
     \<and> http_events
          (http_handle_connection (urllib_path host_ok)
             (''10.0.0.7'', 4242, ''0123456789abcdef'')
             (Data (''GET //[x/.env HTTP/1.1'' @ [CHR 0x0D, CHR 0x0A]
                    @ ''Host: x'' @ [CHR 0x0D, CHR 0x0A, CHR 0x0D, CHR 0x0A]))
             http_init) = []
     \<and> http_sent
          (http_handle_connection (urllib_path host_ok)
             (''10.0.0.7'', 4242, ''0123456789abcdef'')
             (Data (''GET //[x/.env HTTP/1.1'' @ [CHR 0x0D, CHR 0x0A]
                    @ ''Host: x'' @ [CHR 0x0D, CHR 0x0A, CHR 0x0D, CHR 0x0A]))
             http_init) = []"
    using u p d handler_detect_raises [OF p d, of "''10.0.0.7''" 4242 "''0123456789abcdef''"] e
    by simp
qed

text \<open>
  C4, amended. For every request, whatever the compiled pattern lists: when a SQL pattern
  matches the full input the result is \<open>sql_injection\<close>; otherwise, when an XSS
  pattern matches it, \<open>xss\<close>; otherwise, when a traversal pattern matches the path,
  \<open>path_traversal\<close>. The categories after the first match play no part: the result
  stays the same for any other patterns in them and for any behaviour of \<open>urlparse\<close>,
  which is not called before the last step. When none of the three matches, the target is
  parsed. If \<open>urlparse\<close> returns a path, the result is \<open>reconnaissance\<close> when a
  suspicious path occurs in the lower-cased path, and the empty tag when none does. If
  \<open>urlparse\<close> raises, the classifier raises: there is no tag, and the handler records
  no event for the request and sends nothing.
\<close>

theorem detect_attack_precedence:
  "((\<exists>p \<in> set (sql_patterns hp). search p (full_input path headers body))
      \<longrightarrow> detect_attack up hp path headers body = Some ''sql_injection''
        \<and> (\<forall>up' xs ps. detect_attack up' (hp\<lparr>xss_patterns := xs, path_patterns := ps\<rparr>)
                            path headers body = Some ''sql_injection''))
   \<and> (\<not> (\<exists>p \<in> set (sql_patterns hp). search p (full_input path headers body))
      \<and> (\<exists>p \<in> set (xss_patterns hp). search p (full_input path headers body))
      \<longrightarrow> detect_attack up hp path headers body = Some ''xss''
        \<and> (\<forall>up' ps. detect_attack up' (hp\<lparr>path_patterns := ps\<rparr>) path headers body
                        = Some ''xss''))
   \<and> (\<not> (\<exists>p \<in> set (sql_patterns hp). search p (full_input path headers body))
      \<and> \<not> (\<exists>p \<in> set (xss_patterns hp). search p (full_input path headers body))
      \<and> (\<exists>p \<in> set (path_patterns hp). search p path)
      \<longrightarrow> detect_attack up hp path headers body = Some ''path_traversal''
        \<and> (\<forall>up'. detect_attack up' hp path headers body = Some ''path_traversal''))
   \<and> (\<not> (\<exists>p \<in> set (sql_patterns hp). search p (full_input path headers body))
      \<and> \<not> (\<exists>p \<in> set (xss_patterns hp). search p (full_input path headers body))
      \<and> \<not> (\<exists>p \<in> set (path_patterns hp). search p path)
      \<and> up path = Some parsed
      \<longrightarrow> detect_attack up hp path headers body =
            (if \<exists>s \<in> set SUSPICIOUS_PATHS. py_in (py_lower s) (py_lower parsed)
             then Some ''reconnaissance'' else Some []))
   \<and> (\<not> (\<exists>p \<in> set (sql_patterns hp). search p (full_input path headers body))
      \<and> \<not> (\<exists>p \<in> set (xss_patterns hp). search p (full_input path headers body))
      \<and> \<not> (\<exists>p \<in> set (path_patterns hp). search p path)
      \<and> up path = None
      \<longrightarrow> detect_attack up hp path headers body = None
        \<and> (parse_request data = Some (method, path, headers, body)
           \<longrightarrow> http_events (http_handle_connection up (ip, port, sid) (Data data) hp)
                 = http_events hp
             \<and> http_sent (http_handle_connection up (ip, port, sid) (Data data) hp) = []))"
proof -
  have a: "(\<exists>p \<in> set (sql_patterns hp). search p (full_input path headers body))
      \<longrightarrow> detect_attack up hp path headers body = Some ''sql_injection''
        \<and> (\<forall>up' xs ps. detect_attack up' (hp\<lparr>xss_patterns := xs, path_patterns := ps\<rparr>)
                            path headers body = Some ''sql_injection'')"
    by (simp add: detect_attack_def first_match_iff)
  have b: "\<not> (\<exists>p \<in> set (sql_patterns hp). search p (full_input path headers body))
      \<and> (\<exists>p \<in> set (xss_patterns hp). search p (full_input path headers body))
      \<longrightarrow> detect_attack up hp path headers body = Some ''xss''
        \<and> (\<forall>up' ps. detect_attack up' (hp\<lparr>path_patterns := ps\<rparr>) path headers body
                        = Some ''xss'')"
    by (simp add: detect_attack_def first_match_iff)
  have c: "\<not> (\<exists>p \<in> set (sql_patterns hp). search p (full_input path headers body))
      \<and> \<not> (\<exists>p \<in> set (xss_patterns hp). search p (full_input path headers body))
      \<and> (\<exists>p \<in> set (path_patterns hp). search p path)
      \<longrightarrow> detect_attack up hp path headers body = Some ''path_traversal''
        \<and> (\<forall>up'. detect_attack up' hp path headers body = Some ''path_traversal'')"
    by (simp add: detect_attack_def first_match_iff)
  have d: "\<not> (\<exists>p \<in> set (sql_patterns hp). search p (full_input path headers body))
      \<and> \<not> (\<exists>p \<in> set (xss_patterns hp). search p (full_input path headers body))
      \<and> \<not> (\<exists>p \<in> set (path_patterns hp). search p path)
      \<and> up path = Some parsed
      \<longrightarrow> detect_attack up hp path headers body =
            (if \<exists>s \<in> set SUSPICIOUS_PATHS. py_in (py_lower s) (py_lower parsed)
             then Some ''reconnaissance'' else Some [])"
    by (simp add: detect_attack_def first_match_iff first_suspicious_iff Let_def)
  have e: "\<not> (\<exists>p \<in> set (sql_patterns hp). search p (full_input path headers body))
      \<and> \<not> (\<exists>p \<in> set (xss_patterns hp). search p (full_input path headers body))
      \<and> \<not> (\<exists>p \<in> set (path_patterns hp). search p path)
      \<and> up path = None
      \<longrightarrow> detect_attack up hp path headers body = None
        \<and> (parse_request data = Some (method, path, headers, body)
           \<longrightarrow> http_events (http_handle_connection up (ip, port, sid) (Data data) hp)
                 = http_events hp
             \<and> http_sent (http_handle_connection up (ip, port, sid) (Data data) hp) = [])"
  proof (intro impI conjI)
    assume h: "\<not> (\<exists>p \<in> set (sql_patterns hp). search p (full_input path headers body))
      \<and> \<not> (\<exists>p \<in> set (xss_patterns hp). search p (full_input path headers body))
      \<and> \<not> (\<exists>p \<in> set (path_patterns hp). search p path)
      \<and> up path = None"
    then show n: "detect_attack up hp path headers body = None"
      by (simp add: detect_attack_def first_match_iff)
    assume p: "parse_request data = Some (method, path, headers, body)"
    show "http_events (http_handle_connection up (ip, port, sid) (Data data) hp) = http_events hp"
      using handler_detect_raises [OF p n] by simp
    show "http_sent (http_handle_connection up (ip, port, sid) (Data data) hp) = []"
      using handler_detect_raises [OF p n] by simp
  qed
  show ?thesis
    using a b c d e by blast
qed


lemma ex_parse:
  "parse_request (''GET /search?q=1%20UNION%20SELECT%201 HTTP/1.1'' @ [CHR 0x0D, CHR 0x0A]
                  @ ''Host: x'' @ [CHR 0x0D, CHR 0x0A, CHR 0x0D, CHR 0x0A])
   = Some (''GET'', ''/search?q=1%20UNION%20SELECT%201'', [(''Host'', ''x'')], [])"
  by code_simp

lemma ex_detect:
  "detect_attack (urllib_path host_ok) http_init ''/search?q=1%20UNION%20SELECT%201''
     [(''Host'', ''x'')] [] = Some []"
  by code_simp

lemma ex_response:
  "get_response (urllib_path host_ok) hp ''/search?q=1%20UNION%20SELECT%201'' =
     (case map_of (fake_services hp) ''/search'' of
        Some response \<Rightarrow> Some response
      | None \<Rightarrow>
          (case prefix_service (fake_services hp) ''/search'' of
             Some response \<Rightarrow> Some response
           | None \<Rightarrow> Some (build_response 404 ''Not Found''
                              ''<html><body><h1>404 Not Found</h1></body></html>'')))"
proof -
  have "urllib_path host_ok ''/search?q=1%20UNION%20SELECT%201'' = Some ''/search''"
    by code_simp
  then show ?thesis
    by (simp add: get_response_def)
qed

lemma ex_services:
  "map_of load_fake_services ''/search'' = None"
  "prefix_service load_fake_services ''/search'' = None"
  by code_simp+

text \<open>
  C3. The request \<open>GET /search?q=1%20UNION%20SELECT%201 HTTP/1.1\<close> with the header
  \<open>Host: x\<close> gives exactly one \<open>http_request\<close> event and the 404 page, as
  claimed, but the event's \<open>attack_type\<close> is empty, not \<open>sql_injection\<close>: the
  path is matched as it arrives, and between \<open>UNION\<close> and \<open>SELECT\<close> it holds
  \<open>%20\<close>, which the pattern's \<open>\s+\<close> does not match. The target has no network
  location, so the check of a bracketed host (\<open>host_ok\<close>) plays no part.
\<close>

theorem http_union_select_not_classified:
  "map http_attack_type
     (http_events
        (http_handle_connection (urllib_path host_ok)
           (''10.0.0.7'', 4242, ''0123456789abcdef'')
           (Data (''GET /search?q=1%20UNION%20SELECT%201 HTTP/1.1'' @ [CHR 0x0D, CHR 0x0A]
                  @ ''Host: x'' @ [CHR 0x0D, CHR 0x0A, CHR 0x0D, CHR 0x0A]))
           http_init)) = [[]]
   \<and> http_sent
        (http_handle_connection (urllib_path host_ok)
           (''10.0.0.7'', 4242, ''0123456789abcdef'')
           (Data (''GET /search?q=1%20UNION%20SELECT%201 HTTP/1.1'' @ [CHR 0x0D, CHR 0x0A]
                  @ ''Host: x'' @ [CHR 0x0D, CHR 0x0A, CHR 0x0D, CHR 0x0A]))
           http_init)
       = [build_response 404 ''Not Found'' ''<html><body><h1>404 Not Found</h1></body></html>'']"
proof -
  have d: "detect_attack (urllib_path host_ok)
             (http_init\<lparr>http_sent := [], http_writer_closed := False,
                         http_active_connections := a, total_requests := n\<rparr>)
             ''/search?q=1%20UNION%20SELECT%201'' [(''Host'', ''x'')] [] = Some []" for a n
    by (rule trans [OF detect_attack_cong ex_detect]) simp_all
  have f: "fake_services http_init = load_fake_services" "http_events http_init = []"
    "http_sent http_init = []"
    by (simp_all add: http_init_def)
  have c: "\<not> (http_max_connections http_init \<le> http_active_connections http_init)"
    by (simp add: http_init_def)
  show ?thesis
    using c
    by (simp add: http_handle_connection_def ex_parse [simplified] Let_def d ex_response
          ex_services http_logger_def http_finally_def f)
qed




theorem detect_attack_precedence_witness:
  "\<forall>host_ok.
     detect_attack (urllib_path host_ok) http_init ''/'' [] [CHR 0x27] = Some ''sql_injection''
     \<and> detect_attack (urllib_path host_ok) http_init ''/'' [] ''<iframe'' = Some ''xss''
     \<and> detect_attack (urllib_path host_ok) http_init ''/../'' [] [] = Some ''path_traversal''
     \<and> detect_attack (urllib_path host_ok) http_init ''/.env'' [] [] = Some ''reconnaissance''
     \<and> detect_attack (urllib_path host_ok) http_init ''/x'' [] [] = Some []
     \<and> detect_attack (urllib_path host_ok) http_init ''//[x/.env'' [] [] = None
     \<and> http_events
          (http_handle_connection (urllib_path host_ok)
             (''10.0.0.7'', 4242, ''0123456789abcdef'')
             (Data (''GET //[x/.env HTTP/1.1'' @ [CHR 0x0D, CHR 0x0A, CHR 0x0D, CHR 0x0A]))
             http_init) = []"
proof
  fix host_ok
  let ?up = "urllib_path host_ok"
  have s1: "\<exists>p \<in> set (sql_patterns http_init). search p (full_input ''/'' [] [CHR 0x27])"
    unfolding first_match_iff [symmetric] by code_simp
  have s2: "\<not> (\<exists>p \<in> set (sql_patterns http_init). search p (full_input ''/'' [] ''<iframe''))"
    unfolding first_match_iff [symmetric] by code_simp
  have x2: "\<exists>p \<in> set (xss_patterns http_init). search p (full_input ''/'' [] ''<iframe'')"
    unfolding first_match_iff [symmetric] by code_simp
  have s3: "\<not> (\<exists>p \<in> set (sql_patterns http_init). search p (full_input ''/../'' [] []))"
    unfolding first_match_iff [symmetric] by code_simp
  have x3: "\<not> (\<exists>p \<in> set (xss_patterns http_init). search p (full_input ''/../'' [] []))"
    unfolding first_match_iff [symmetric] by code_simp
  have t3: "\<exists>p \<in> set (path_patterns http_init). search p ''/../''"
    unfolding first_match_iff [symmetric] by code_simp
  have s4: "\<not> (\<exists>p \<in> set (sql_patterns http_init). search p (full_input ''/.env'' [] []))"
    unfolding first_match_iff [symmetric] by code_simp
  have x4: "\<not> (\<exists>p \<in> set (xss_patterns http_init). search p (full_input ''/.env'' [] []))"
    unfolding first_match_iff [symmetric] by code_simp
  have t4: "\<not> (\<exists>p \<in> set (path_patterns http_init). search p ''/.env'')"
    unfolding first_match_iff [symmetric] by code_simp
  have u4: "?up ''/.env'' = Some ''/.env''"
    by code_simp
  have r4: "\<exists>s \<in> set SUSPICIOUS_PATHS. py_in (py_lower s) (py_lower ''/.env'')"
    unfolding first_suspicious_iff [symmetric] by code_simp
  have s5: "\<not> (\<exists>p \<in> set (sql_patterns http_init). search p (full_input ''/x'' [] []))"
    unfolding first_match_iff [symmetric] by code_simp
  have x5: "\<not> (\<exists>p \<in> set (xss_patterns http_init). search p (full_input ''/x'' [] []))"
    unfolding first_match_iff [symmetric] by code_simp
  have t5: "\<not> (\<exists>p \<in> set (path_patterns http_init). search p ''/x'')"
    unfolding first_match_iff [symmetric] by code_simp
  have u5: "?up ''/x'' = Some ''/x''"
    by code_simp
  have r5: "\<not> (\<exists>s \<in> set SUSPICIOUS_PATHS. py_in (py_lower s) (py_lower ''/x''))"
    unfolding first_suspicious_iff [symmetric] by code_simp
  have s6: "\<not> (\<exists>p \<in> set (sql_patterns http_init). search p (full_input ''//[x/.env'' [] []))"
    unfolding first_match_iff [symmetric] by code_simp
  have x6: "\<not> (\<exists>p \<in> set (xss_patterns http_init). search p (full_input ''//[x/.env'' [] []))"
    unfolding first_match_iff [symmetric] by code_simp
  have t6: "\<not> (\<exists>p \<in> set (path_patterns http_init). search p ''//[x/.env'')"
    unfolding first_match_iff [symmetric] by code_simp
  have u6: "?up ''//[x/.env'' = None"
    by code_simp
  have p6: "parse_request (''GET //[x/.env HTTP/1.1'' @ [CHR 0x0D, CHR 0x0A, CHR 0x0D, CHR 0x0A])
              = Some (''GET'', ''//[x/.env'', [], [])"
    by code_simp
  have e6: "http_events http_init = []"
    by (simp add: http_init_def)
  have c1: "detect_attack ?up http_init ''/'' [] [CHR 0x27] = Some ''sql_injection''"
    using detect_attack_precedence [of http_init "''/''" "[]" "[CHR 0x27]" ?up] s1
    by blast
  have c2: "detect_attack ?up http_init ''/'' [] ''<iframe'' = Some ''xss''"
    using detect_attack_precedence [of http_init "''/''" "[]" "''<iframe''" ?up]
      s2 x2 by blast
  have c3: "detect_attack ?up http_init ''/../'' [] [] = Some ''path_traversal''"
    using detect_attack_precedence [of http_init "''/../''" "[]" "[]" ?up]
      s3 x3 t3 by blast
  have c4: "detect_attack ?up http_init ''/.env'' [] [] = Some ''reconnaissance''"
    using detect_attack_precedence [of http_init "''/.env''" "[]" "[]" ?up
        "''/.env''"] s4 x4 t4 u4 r4 by presburger
  have c5: "detect_attack ?up http_init ''/x'' [] [] = Some []"
    using detect_attack_precedence [of http_init "''/x''" "[]" "[]" ?up "''/x''"]
      s5 x5 t5 u5 r5 by presburger
  have c6: "detect_attack ?up http_init ''//[x/.env'' [] [] = None
     \<and> http_events
          (http_handle_connection ?up (''10.0.0.7'', 4242, ''0123456789abcdef'')
             (Data (''GET //[x/.env HTTP/1.1'' @ [CHR 0x0D, CHR 0x0A, CHR 0x0D, CHR 0x0A]))
             http_init) = []"
    using detect_attack_precedence [of http_init "''//[x/.env''" "[]" "[]" ?up _
        "''GET //[x/.env HTTP/1.1'' @ [CHR 0x0D, CHR 0x0A, CHR 0x0D, CHR 0x0A]" "''GET''"
        "''10.0.0.7''" 4242 "''0123456789abcdef''"]
      s6 x6 t6 u6 p6 e6 by presburger
  show "detect_attack ?up http_init ''/'' [] [CHR 0x27] = Some ''sql_injection''
     \<and> detect_attack ?up http_init ''/'' [] ''<iframe'' = Some ''xss''
     \<and> detect_attack ?up http_init ''/../'' [] [] = Some ''path_traversal''
     \<and> detect_attack ?up http_init ''/.env'' [] [] = Some ''reconnaissance''
     \<and> detect_attack ?up http_init ''/x'' [] [] = Some []
     \<and> detect_attack ?up http_init ''//[x/.env'' [] [] = None
     \<and> http_events
          (http_handle_connection ?up (''10.0.0.7'', 4242, ''0123456789abcdef'')
             (Data (''GET //[x/.env HTTP/1.1'' @ [CHR 0x0D, CHR 0x0A, CHR 0x0D, CHR 0x0A]))
             http_init) = []"
    using c1 c2 c3 c4 c5 c6 by blast
qed


end
